theory Spec2Isabelle
  imports Main "HOL-Library.AList"
begin

section \<open>Job application builder: a shallow embedding of \<open>main.py\<close>\<close>

text \<open>
  The program is a linear script: load a YAML configuration, merge the language-specific
  sub-mapping, filter the attachment list, read the cover-letter text, render and compile
  four documents, archive the results and append a row to a history table.

  Everything the script does beyond computing values is explicit here: the filesystem, the
  history table, the clock and the logger are fields of a \<open>world\<close> record that every
  function takes and returns; every Python exception is a value of type \<open>exn\<close>.
  The libraries the script calls (the YAML parser, Jinja2, \<open>xelatex\<close>) are fields
  of an \<open>env\<close> record, so nothing is assumed about what they compute. Of \<open>pandas\<close>, the
  type inference of \<open>read_csv\<close>, the comparison of a column with a value and the printing
  of \<open>to_csv\<close> are written out, since what the history logger does depends on them.
\<close>

subsection \<open>Python values\<close>

text \<open>
  What \<open>yaml.safe_load\<close> returns and the script stores in \<open>data\<close>: the empty
  document (\<open>None\<close>), strings, lists and mappings. A mapping is an association list
  in insertion order; looking a key up is \<open>map_of\<close>.
\<close>

datatype pyval =
    PNone
  | PStr string
  | PList "pyval list"
  | PDict "(pyval \<times> pyval) list"

type_synonym dict = "(pyval \<times> pyval) list"

datatype exn =
    AttributeError
  | TypeError
  | ValueError
  | KeyError
  | FileNotFoundError
  | FileExistsError
  | IsADirectoryError
  | PermissionError
  | OSError
  | EmptyDataError
  | YAMLError
  | TemplateNotFound
  | TemplateError
  | ParserError

text \<open>Truthiness, as \<open>if not data\<close> tests it.\<close>

fun truthy :: "pyval \<Rightarrow> bool" where
  "truthy PNone = False"
| "truthy (PStr s) = (s \<noteq> [])"
| "truthy (PList xs) = (xs \<noteq> [])"
| "truthy (PDict kvs) = (kvs \<noteq> [])"

text \<open>Lists and mappings are unhashable: using one as a key raises \<open>TypeError\<close>.\<close>

fun hashable :: "pyval \<Rightarrow> bool" where
  "hashable (PList xs) = False"
| "hashable (PDict kvs) = False"
| "hashable v = True"

text \<open>\<open>d.get(k, default)\<close> for a hashable key.\<close>

definition dict_get :: "dict \<Rightarrow> pyval \<Rightarrow> pyval \<Rightarrow> pyval" where
  "dict_get d k dflt = (case map_of d k of Some v \<Rightarrow> v | None \<Rightarrow> dflt)"

text \<open>\<open>d[k] = v\<close>: an existing key keeps its place, a new key goes to the end.\<close>

definition dict_setitem :: "dict \<Rightarrow> pyval \<Rightarrow> pyval \<Rightarrow> dict" where
  "dict_setitem d k v = AList.update k v d"

text \<open>\<open>d.update(other)\<close> for a mapping \<open>other\<close>: every key of \<open>other\<close>, in order,
  is set to the value \<open>other\<close> gives it.\<close>

definition dict_update :: "dict \<Rightarrow> dict \<Rightarrow> dict" where
  "dict_update d other =
     fold (\<lambda>k acc. case map_of other k of Some v \<Rightarrow> dict_setitem acc k v | None \<Rightarrow> acc)
       (map fst other) d"

text \<open>
  \<open>d.update(other)\<close> for any value. A mapping is merged; anything else is iterated
  as a sequence of key/value pairs, each of which must itself be a sequence of length two
  with a hashable first element. \<open>None\<close> is not iterable.
\<close>

fun update_pair :: "pyval \<Rightarrow> exn + (pyval \<times> pyval)" where
  "update_pair (PList [k, v]) = (if hashable k then Inr (k, v) else Inl TypeError)"
| "update_pair (PStr [a, b]) = Inr (PStr [a], PStr [b])"
| "update_pair (PDict [(k1, v1), (k2, v2)]) = Inr (k1, k2)"
| "update_pair PNone = Inl TypeError"
| "update_pair v = Inl ValueError"

fun update_pairs :: "dict \<Rightarrow> pyval list \<Rightarrow> exn + dict" where
  "update_pairs d [] = Inr d"
| "update_pairs d (item # items) =
     (case update_pair item of
        Inl x \<Rightarrow> Inl x
      | Inr (k, v) \<Rightarrow> update_pairs (dict_setitem d k v) items)"

fun py_dict_update :: "dict \<Rightarrow> pyval \<Rightarrow> exn + dict" where
  "py_dict_update d (PDict other) = Inr (dict_update d other)"
| "py_dict_update d (PList items) = update_pairs d items"
| "py_dict_update d (PStr s) = update_pairs d (map (\<lambda>c. PStr [c]) s)"
| "py_dict_update d PNone = Inl TypeError"

text \<open>Iterating a value in a \<open>for\<close> loop: a list gives its elements, a string its
  characters, a mapping its keys.\<close>

fun py_iter :: "pyval \<Rightarrow> exn + pyval list" where
  "py_iter (PList xs) = Inr xs"
| "py_iter (PStr s) = Inr (map (\<lambda>c. PStr [c]) s)"
| "py_iter (PDict kvs) = Inr (map fst kvs)"
| "py_iter PNone = Inl TypeError"

subsection \<open>The name sanitizer\<close>

text \<open>
  \<^verbatim>\<open>
  def create_shell_friendly_name(text):
      text = text.replace(" ", "_").replace("/", "-")
      return re.sub(r"[^a-zA-Z0-9_-]", "", text)
  \<close>
  Both calls of \<open>replace\<close> have one-character arguments, so \<open>str_replace\<close> is the
  replacement of one character by another. The character class is written as the regular
  expression has it: three ranges of code points and two single characters. A character
  beyond ASCII is several bytes here, each of them outside the class, as its code point is in
  Python.
\<close>

definition str_replace :: "char \<Rightarrow> char \<Rightarrow> string \<Rightarrow> string" where
  "str_replace old new text = map (\<lambda>c. if c = old then new else c) text"

definition in_range :: "char \<Rightarrow> char \<Rightarrow> char \<Rightarrow> bool" where
  "in_range lo hi c = ((of_char lo :: nat) \<le> of_char c \<and> (of_char c :: nat) \<le> of_char hi)"

definition shell_class :: "char \<Rightarrow> bool" where
  "shell_class c =
     (in_range CHR ''a'' CHR ''z'' c \<or> in_range CHR ''A'' CHR ''Z'' c \<or>
      in_range CHR ''0'' CHR ''9'' c \<or> c = CHR ''_'' \<or> c = CHR ''-'')"

text \<open>\<open>re.sub(cls, "", text)\<close> for a one-character pattern: every match is deleted.\<close>

definition re_sub_delete :: "(char \<Rightarrow> bool) \<Rightarrow> string \<Rightarrow> string" where
  "re_sub_delete matches text = filter (\<lambda>c. \<not> matches c) text"

definition create_shell_friendly_name :: "string \<Rightarrow> string" where
  "create_shell_friendly_name text =
     (let text' = str_replace CHR ''/'' CHR ''-'' (str_replace CHR '' '' CHR ''_'' text)
      in re_sub_delete (\<lambda>c. \<not> shell_class c) text')"

text \<open>The alphabet \<open>[A-Za-z0-9_-]\<close> of the specification, written out.\<close>

definition shell_safe_alphabet :: "char set" where
  "shell_safe_alphabet =
     set ''abcdefghijklmnopqrstuvwxyzABCDEFGHIJKLMNOPQRSTUVWXYZ0123456789_-''"

text \<open>The sanitizer as the specification words it: one pass of replacement, then a
  filter on the alphabet.\<close>

definition spec_replace_char :: "char \<Rightarrow> char" where
  "spec_replace_char c =
     (if c = CHR '' '' then CHR ''_'' else if c = CHR ''/'' then CHR ''-'' else c)"

definition spec_sanitize :: "string \<Rightarrow> string" where
  "spec_sanitize text = filter (\<lambda>c. c \<in> shell_safe_alphabet) (map spec_replace_char text)"

subsection \<open>Paths, the filesystem, the clock and the logger\<close>

text \<open>
  A path is the list of its components, as \<open>pathlib\<close> holds it (POSIX flavour).
  \<open>p / s\<close> parses the string \<open>s\<close>: empty components and \<open>.\<close> are dropped, and a
  string that starts with a slash replaces \<open>p\<close> altogether.
\<close>

type_synonym path = "string list"

fun split_slash :: "string \<Rightarrow> string list" where
  "split_slash [] = [[]]"
| "split_slash (c # cs) =
     (if c = CHR ''/'' then [] # split_slash cs
      else (case split_slash cs of [] \<Rightarrow> [[c]] | w # ws \<Rightarrow> (c # w) # ws))"

definition path_parts :: "string \<Rightarrow> path" where
  "path_parts s = filter (\<lambda>w. w \<noteq> [] \<and> w \<noteq> ''.'') (split_slash s)"

definition path_div :: "path \<Rightarrow> string \<Rightarrow> path" where
  "path_div p s = (if s \<noteq> [] \<and> hd s = CHR ''/'' then path_parts s else p @ path_parts s)"

datatype level = INFO | WARNING | ERROR | CRITICAL

text \<open>One constructor for each logging call of the script, with the values its message
  is formatted from.\<close>

datatype event =
    ConfigNotFound path
  | ErrorLoadingData
  | NoValidLanguage pyval
  | AttachmentMissing path
  | ContentNotFound
  | Generated string
  | RenderError string exn
  | Compiling string
  | PdfCreated
  | CompileError string string
  | RenderingDone
  | MainPdfMoved string
  | HistoryNotFound path
  | EntryAdded path
  | EntryExists pyval
  | LoggingError exn

text \<open>\<open>datetime.now()\<close>, with the fields the script reads: the calendar date for
  \<open>strftime("%Y-%m-%d")\<close> and the ISO week for \<open>isocalendar()[1]\<close>.\<close>

record datetime =
  dt_year :: nat
  dt_month :: nat
  dt_day :: nat
  dt_iso_week :: nat

text \<open>
  A row of the history file, as the text of its four fields under the header
  \<open>date,week,company,position\<close>.
\<close>

record csv_row =
  csv_date :: string
  csv_week :: string
  csv_company :: string
  csv_position :: string

text \<open>
  The history file on disk: absent; present but \<open>read_csv\<close> or the lookup of a column
  raises (not a table, a column missing, no header); a table with exactly the header
  \<open>date,week,company,position\<close>; or a table with these four columns followed by others,
  of which the four are kept here.
\<close>

datatype history_file =
    NoHistory
  | BadHistory exn
  | History "csv_row list"
  | WideHistory "csv_row list"

text \<open>
  A cell of the data frame that \<open>read_csv\<close> builds: missing, an integer, a float (with the
  text it was read from), a boolean, or a string.
\<close>

datatype cell =
    NaN
  | IntCell int
  | FloatCell string
  | BoolCell bool
  | StrCell string

record frame_row =
  f_date :: cell
  f_week :: cell
  f_company :: cell
  f_position :: cell

text \<open>The data frame: its rows, whether the column \<open>week\<close> has the type
  \<open>float64\<close> (which decides how an integer set into it is stored), and whether it has
  more than the four columns.\<close>

record data_frame =
  df_rows :: "frame_row list"
  df_week_float :: bool
  df_wide :: bool

text \<open>
  The world: regular files with their text, directories, the history file, what a failing
  write of the history file raises and leaves on disk (if writing fails), the number of
  clock readings so far, and the log.
\<close>

record world =
  files :: "path \<Rightarrow> string option"
  dirs :: "path list"
  history :: history_file
  history_write_error :: "(exn \<times> history_file) option"
  ticks :: nat
  logged :: "(level \<times> event) list"

text \<open>What running \<open>xelatex\<close> gives: the program is not installed, or it exits with a
  return code, its standard error and the files it leaves behind.\<close>

datatype proc_result =
    NotInstalled
  | Exited nat string "path \<Rightarrow> string option"

text \<open>
  The surroundings of a run: the directory of the script, the clock, and the libraries it
  calls. Of \<open>pandas\<close>, three things are left to the surroundings: which texts its parser
  reads as floating-point numbers and how \<open>to_csv\<close> prints such a number, and what the
  comparison and the assignment of a row do with a company or position that is a list or a
  mapping (when the comparison does not fail on the lengths).
\<close>

record env =
  base_dir :: path
  clock :: "nat \<Rightarrow> datetime"
  yaml_safe_load :: "string \<Rightarrow> exn + pyval"
  jinja_compile :: "string \<Rightarrow> exn option"
  jinja_render :: "string \<Rightarrow> dict \<Rightarrow> exn + string"
  xelatex :: "path \<Rightarrow> string \<Rightarrow> (path \<Rightarrow> string option) \<Rightarrow> proc_result"
  float_text :: "string \<Rightarrow> bool"
  float_repr :: "string \<Rightarrow> string"
  compare_nonscalar :: "data_frame \<Rightarrow> string \<Rightarrow> pyval \<Rightarrow> pyval \<Rightarrow> exn + bool"
  append_nonscalar ::
    "data_frame \<Rightarrow> string \<Rightarrow> nat \<Rightarrow> pyval \<Rightarrow> pyval \<Rightarrow> exn + csv_row list"

definition TEMPLATE_DIR :: "env \<Rightarrow> path" where
  "TEMPLATE_DIR e = path_div (base_dir e) ''templates''"

definition ATTACHMENT_DIR :: "env \<Rightarrow> path" where
  "ATTACHMENT_DIR e = path_div (base_dir e) ''attachments''"

definition CONFIG_FILE :: "env \<Rightarrow> path" where
  "CONFIG_FILE e = path_div (base_dir e) ''config.yaml''"

definition APPLICATION_DIR :: "env \<Rightarrow> path" where
  "APPLICATION_DIR e = path_div (base_dir e) ''applications''"

definition HISTORY_FILE :: "env \<Rightarrow> path" where
  "HISTORY_FILE e = path_div (base_dir e) ''application_history.csv''"

definition CONTENT_FILE :: "env \<Rightarrow> path" where
  "CONTENT_FILE e = path_div (base_dir e) ''application_text.txt''"

definition logger :: "level \<Rightarrow> event \<Rightarrow> world \<Rightarrow> world" where
  "logger lvl ev w = w\<lparr>logged := logged w @ [(lvl, ev)]\<rparr>"

definition datetime_now :: "env \<Rightarrow> world \<Rightarrow> datetime \<times> world" where
  "datetime_now e w = (clock e (ticks w), w\<lparr>ticks := Suc (ticks w)\<rparr>)"

definition digit :: "nat \<Rightarrow> char" where
  "digit n = char_of (48 + n mod 10)"

text \<open>\<open>strftime("%Y-%m-%d")\<close>: four digits of the year (a \<open>datetime\<close> has a year up
  to 9999), two of the month, two of the day.\<close>

definition strftime_ymd :: "datetime \<Rightarrow> string" where
  "strftime_ymd d =
     [digit (dt_year d div 1000), digit (dt_year d div 100), digit (dt_year d div 10),
      digit (dt_year d)] @ ''-'' @
     [digit (dt_month d div 10), digit (dt_month d)] @ ''-'' @
     [digit (dt_day d div 10), digit (dt_day d)]"

text \<open>\<open>Path.exists()\<close>: a regular file or a directory.\<close>

definition path_exists :: "world \<Rightarrow> path \<Rightarrow> bool" where
  "path_exists w p = (files w p \<noteq> None \<or> p \<in> set (dirs w))"

text \<open>\<open>open(p, "r").read()\<close> and \<open>open(p, "w")\<close>, which creates or empties the file.\<close>

definition read_text :: "world \<Rightarrow> path \<Rightarrow> exn + string" where
  "read_text w p =
     (case files w p of
        Some s \<Rightarrow> Inr s
      | None \<Rightarrow> if p \<in> set (dirs w) then Inl IsADirectoryError else Inl FileNotFoundError)"

definition open_w :: "path \<Rightarrow> world \<Rightarrow> exn option \<times> world" where
  "open_w p w =
     (if p \<in> set (dirs w) then (Some IsADirectoryError, w)
      else (None, w\<lparr>files := (files w)(p \<mapsto> [])\<rparr>))"

text \<open>
  \<open>shutil.move\<close> and \<open>shutil.copy\<close> of a regular file onto a file name: a missing
  source raises, an existing destination file is replaced. (Sources that are directories
  are outside this model: the script only names files.)
\<close>

definition shutil_move :: "path \<Rightarrow> path \<Rightarrow> world \<Rightarrow> exn option \<times> world" where
  "shutil_move src dst w =
     (case files w src of
        None \<Rightarrow> (Some FileNotFoundError, w)
      | Some s \<Rightarrow> (None, w\<lparr>files := ((files w)(src := None))(dst \<mapsto> s)\<rparr>))"

definition shutil_copy :: "path \<Rightarrow> path \<Rightarrow> world \<Rightarrow> exn option \<times> world" where
  "shutil_copy src dst w =
     (case files w src of
        None \<Rightarrow> (Some FileNotFoundError, w)
      | Some s \<Rightarrow> (None, w\<lparr>files := (files w)(dst \<mapsto> s)\<rparr>))"

text \<open>\<open>p.mkdir(parents=True, exist_ok=True)\<close>: nothing happens when the directory
  exists; a regular file of that name raises.\<close>

definition mkdir_p :: "path \<Rightarrow> world \<Rightarrow> exn option \<times> world" where
  "mkdir_p p w =
     (if files w p \<noteq> None then (Some FileExistsError, w)
      else if p \<in> set (dirs w) then (None, w)
      else (None, w\<lparr>dirs := dirs w @ [p]\<rparr>))"

subsection \<open>Loading, rendering and compiling\<close>

text \<open>
  \<^verbatim>\<open>
  def load_config():
      if not CONFIG_FILE.exists():
          logger.error(f"{CROSS_SYMBOL} {CONFIG_FILE} not found!")
          return {}
      with open(CONFIG_FILE, "r", encoding="utf-8") as fh:
          return yaml.safe_load(fh)
  \<close>
\<close>

definition load_config :: "env \<Rightarrow> world \<Rightarrow> (exn + pyval) \<times> world" where
  "load_config e w =
     (if \<not> path_exists w (CONFIG_FILE e)
      then (Inr (PDict []), logger ERROR (ConfigNotFound (CONFIG_FILE e)) w)
      else (case read_text w (CONFIG_FILE e) of
              Inl x \<Rightarrow> (Inl x, w)
            | Inr s \<Rightarrow> (yaml_safe_load e s, w)))"

text \<open>
  The body of the \<open>try\<close> in \<open>render_document\<close>: the template is looked up under
  \<open>TEMPLATE_DIR\<close> and compiled, the output file is opened for writing (which empties
  it), and only then is the template rendered and the text written.
\<close>

definition render_try :: "env \<Rightarrow> string \<Rightarrow> string \<Rightarrow> dict \<Rightarrow> world \<Rightarrow> exn option \<times> world" where
  "render_try e template_name output_name data w =
     (case files w (path_div (TEMPLATE_DIR e) template_name) of
        None \<Rightarrow> (Some TemplateNotFound, w)
      | Some src \<Rightarrow>
          (case jinja_compile e src of
             Some x \<Rightarrow> (Some x, w)
           | None \<Rightarrow>
               (let output_path = path_div (TEMPLATE_DIR e) output_name in
                case open_w output_path w of
                  (Some x, w1) \<Rightarrow> (Some x, w1)
                | (None, w1) \<Rightarrow>
                    (case jinja_render e src data of
                       Inl x \<Rightarrow> (Some x, w1)
                     | Inr out \<Rightarrow>
                         (None, logger INFO (Generated output_name)
                                  (w1\<lparr>files := (files w1)(output_path \<mapsto> out)\<rparr>))))))"

definition render_document :: "env \<Rightarrow> string \<Rightarrow> string \<Rightarrow> dict \<Rightarrow> world \<Rightarrow> world" where
  "render_document e template_name output_name data w =
     (case render_try e template_name output_name data w of
        (None, w1) \<Rightarrow> w1
      | (Some err, w1) \<Rightarrow> logger ERROR (RenderError template_name err) w1)"

text \<open>
  \<open>compile_latex\<close> catches \<open>CalledProcessError\<close> only (a non-zero return code under
  \<open>check=True\<close>); a missing \<open>xelatex\<close> program raises \<open>FileNotFoundError\<close>, which
  leaves the function. The error event carries the message whose last twenty lines are
  printed.
\<close>

definition compile_latex :: "env \<Rightarrow> string \<Rightarrow> world \<Rightarrow> exn option \<times> world" where
  "compile_latex e tex_file w =
     (let w1 = logger INFO (Compiling tex_file) w in
      case xelatex e (TEMPLATE_DIR e) tex_file (files w1) of
        NotInstalled \<Rightarrow> (Some FileNotFoundError, w1)
      | Exited rc err fs \<Rightarrow>
          (let w2 = w1\<lparr>files := fs\<rparr> in
           if rc = 0 then (None, logger INFO PdfCreated w2)
           else (let error_msg = (if err \<noteq> [] then err else ''Unknown LaTeX Error : {err}'')
                 in (None, logger ERROR (CompileError tex_file error_msg) w2))))"

subsection \<open>The archiver\<close>

text \<open>\<open>str.lower()\<close> on the output of the sanitizer, which is ASCII.\<close>

definition lower_char :: "char \<Rightarrow> char" where
  "lower_char c = (if in_range CHR ''A'' CHR ''Z'' c then char_of (of_char c + (32::nat)) else c)"

definition py_lower :: "string \<Rightarrow> string" where
  "py_lower s = map lower_char s"

text \<open>Calling \<open>text.replace\<close> on a value: only a string has the method.\<close>

definition text_arg :: "pyval \<Rightarrow> exn + string" where
  "text_arg v = (case v of PStr s \<Rightarrow> Inr s | _ \<Rightarrow> Inl AttributeError)"

text \<open>
  Lines 127 to 132 of \<open>archive_results\<close>: the sanitized, lower-cased company and job
  title, and the name of the folder.
  \<^verbatim>\<open>
  data_str = datetime.now().strftime("%Y-%m-%d")
  company = create_shell_friendly_name(data.get("company", "unknown_company")).lower()
  job = create_shell_friendly_name(data.get("job_title", "job")).lower()
  folder_name = f"{data_str}_{company}_{job}"
  \<close>
\<close>

definition archive_names :: "datetime \<Rightarrow> dict \<Rightarrow> exn + (string \<times> string \<times> string)" where
  "archive_names now data =
     (let data_str = strftime_ymd now in
      case text_arg (dict_get data (PStr ''company'') (PStr ''unknown_company'')) of
        Inl x \<Rightarrow> Inl x
      | Inr c \<Rightarrow>
          (let company = py_lower (create_shell_friendly_name c) in
           case text_arg (dict_get data (PStr ''job_title'') (PStr ''job'')) of
             Inl x \<Rightarrow> Inl x
           | Inr j \<Rightarrow>
               (let job = py_lower (create_shell_friendly_name j);
                    folder_name = data_str @ ''_'' @ company @ ''_'' @ job
                in Inr (company, job, folder_name))))"

text \<open>The loop over the three compiled documents: each move is unconditional, and the
  first one that fails ends the function.\<close>

fun move_artifacts :: "path \<Rightarrow> path \<Rightarrow> string list \<Rightarrow> world \<Rightarrow> exn option \<times> world" where
  "move_artifacts src_dir target_dir [] w = (None, w)"
| "move_artifacts src_dir target_dir (name # names) w =
     (case shutil_move (path_div src_dir name) (path_div target_dir name) w of
        (Some x, w1) \<Rightarrow> (Some x, w1)
      | (None, w1) \<Rightarrow> move_artifacts src_dir target_dir names w1)"

definition archive_results :: "env \<Rightarrow> dict \<Rightarrow> world \<Rightarrow> exn option \<times> world" where
  "archive_results e data w =
     (case datetime_now e w of (now, w1) \<Rightarrow>
      case archive_names now data of
        Inl x \<Rightarrow> (Some x, w1)
      | Inr (company, job, folder_name) \<Rightarrow>
          (let target_dir = path_div (APPLICATION_DIR e) folder_name in
           case mkdir_p target_dir w1 of
             (Some x, w2) \<Rightarrow> (Some x, w2)
           | (None, w2) \<Rightarrow>
               (let main_src = path_div (TEMPLATE_DIR e) ''main.pdf'' in
                case move_artifacts (TEMPLATE_DIR e) target_dir
                       [''cv.pdf'', ''application_letter.pdf'', ''attachments.pdf''] w2 of
                  (Some x, w3) \<Rightarrow> (Some x, w3)
                | (None, w3) \<Rightarrow>
                    (case shutil_copy (CONFIG_FILE e) (path_div target_dir ''config.yaml'') w3 of
                       (Some x, w4) \<Rightarrow> (Some x, w4)
                     | (None, w4) \<Rightarrow>
                         (case shutil_copy
                                 (path_div (base_dir e) ''application_letter_text.txt'')
                                 (path_div target_dir ''application_letter_text.txt'') w4 of
                            (Some x, w5) \<Rightarrow> (Some x, w5)
                          | (None, w5) \<Rightarrow>
                              (if path_exists w5 main_src then
                                 (let final_name = ''application_'' @ company @ ''_'' @ job @ ''.pdf''
                                  in case shutil_move main_src (path_div target_dir final_name) w5 of
                                       (Some x, w6) \<Rightarrow> (Some x, w6)
                                     | (None, w6) \<Rightarrow>
                                         (None, logger INFO (MainPdfMoved final_name) w6))
                               else (None, w5)))))))"

subsection \<open>The history logger\<close>

text \<open>
  \<open>pd.read_csv\<close> with its defaults does not return the text of the file: it infers a
  type for each column. A field whose text is one of the default missing-value markers is
  \<open>NaN\<close>.
\<close>

definition STR_NA_VALUES :: "string list" where
  "STR_NA_VALUES =
     [[], ''#N/A'', ''#N/A N/A'', ''#NA'', ''-1.#IND'', ''-1.#QNAN'', ''-NaN'', ''-nan'',
      ''1.#IND'', ''1.#QNAN'', ''<NA>'', ''N/A'', ''NA'', ''NULL'', ''NaN'', ''None'',
      ''n/a'', ''nan'', ''null'']"

definition is_na :: "string \<Rightarrow> bool" where
  "is_na s = (s \<in> set STR_NA_VALUES)"

text \<open>
  The parser's integer: white space, an optional sign, at least one digit, white space, and
  a value that fits 64 bits.
\<close>

definition isspace_ascii :: "char \<Rightarrow> bool" where
  "isspace_ascii c = (c \<in> set [CHR '' '', CHR 0x09, CHR 0x0A, CHR 0x0B, CHR 0x0C, CHR 0x0D])"

definition isdigit_ascii :: "char \<Rightarrow> bool" where
  "isdigit_ascii c = in_range CHR ''0'' CHR ''9'' c"

definition strip_spaces :: "string \<Rightarrow> string" where
  "strip_spaces s = rev (dropWhile isspace_ascii (rev (dropWhile isspace_ascii s)))"

definition digits_value :: "string \<Rightarrow> int" where
  "digits_value ds = foldl (\<lambda>acc c. 10 * acc + (of_char c - 48)) 0 ds"

definition str_to_int64 :: "string \<Rightarrow> int option" where
  "str_to_int64 s =
     (let p = strip_spaces s;
          neg = (p \<noteq> [] \<and> hd p = CHR ''-'');
          ds = (if p \<noteq> [] \<and> (hd p = CHR ''-'' \<or> hd p = CHR ''+'') then tl p else p)
      in if ds = [] \<or> \<not> list_all isdigit_ascii ds then None
         else (let v = (if neg then - digits_value ds else digits_value ds)
               in if - (2 ^ 63) \<le> v \<and> v < 2 ^ 63 then Some v else None))"

definition bool_text :: "string \<Rightarrow> bool option" where
  "bool_text s =
     (if s \<in> set [''True'', ''TRUE'', ''true''] then Some True
      else if s \<in> set [''False'', ''FALSE'', ''false''] then Some False
      else None)"

text \<open>
  The type of a column, tried in the parser's order: integers (no field missing), floats,
  booleans, and strings otherwise. A column without rows stays a column of objects.
\<close>

datatype kind = IntKind | FloatKind | BoolKind | ObjectKind

definition column_kind :: "env \<Rightarrow> string list \<Rightarrow> kind" where
  "column_kind e xs =
     (if xs = [] then ObjectKind
      else if list_all (\<lambda>x. \<not> is_na x \<and> str_to_int64 x \<noteq> None) xs then IntKind
      else if list_all (\<lambda>x. is_na x \<or> str_to_int64 x \<noteq> None \<or> float_text e x) xs
      then FloatKind
      else if list_all (\<lambda>x. is_na x \<or> bool_text x \<noteq> None) xs then BoolKind
      else ObjectKind)"

definition read_cell :: "kind \<Rightarrow> string \<Rightarrow> cell" where
  "read_cell k x =
     (if is_na x then NaN
      else (case k of
              IntKind \<Rightarrow> (case str_to_int64 x of Some n \<Rightarrow> IntCell n | None \<Rightarrow> NaN)
            | FloatKind \<Rightarrow> FloatCell x
            | BoolKind \<Rightarrow> (case bool_text x of Some b \<Rightarrow> BoolCell b | None \<Rightarrow> NaN)
            | ObjectKind \<Rightarrow> StrCell x))"

definition infer_frame :: "env \<Rightarrow> bool \<Rightarrow> csv_row list \<Rightarrow> data_frame" where
  "infer_frame e wide rows =
     (let kd = column_kind e (map csv_date rows);
          kw = column_kind e (map csv_week rows);
          kc = column_kind e (map csv_company rows);
          kp = column_kind e (map csv_position rows)
      in \<lparr>df_rows =
             map (\<lambda>r. \<lparr>f_date = read_cell kd (csv_date r), f_week = read_cell kw (csv_week r),
                        f_company = read_cell kc (csv_company r),
                        f_position = read_cell kp (csv_position r)\<rparr>) rows,
           df_week_float = (kw = FloatKind), df_wide = wide\<rparr>)"

definition read_csv :: "env \<Rightarrow> world \<Rightarrow> exn + data_frame" where
  "read_csv e w =
     (case history w of
        NoHistory \<Rightarrow> Inl FileNotFoundError
      | BadHistory x \<Rightarrow> Inl x
      | History rows \<Rightarrow> Inr (infer_frame e False rows)
      | WideHistory rows \<Rightarrow> Inr (infer_frame e True rows))"

text \<open>
  A comparand of \<open>==\<close>: a string, \<open>None\<close>, or something else (a list or a mapping).
  Against a string, only a string cell of the same text is equal: a number, a boolean and
  \<open>NaN\<close> are not. Against \<open>None\<close> nothing is equal. A list of another length than the
  column raises \<open>ValueError\<close>.
\<close>

definition scalar_of :: "pyval \<Rightarrow> string option option" where
  "scalar_of v = (case v of PStr s \<Rightarrow> Some (Some s) | PNone \<Rightarrow> Some None | _ \<Rightarrow> None)"

definition cell_eq :: "cell \<Rightarrow> string option \<Rightarrow> bool" where
  "cell_eq c v =
     (case v of
        None \<Rightarrow> False
      | Some s \<Rightarrow> (case c of StrCell t \<Rightarrow> t = s | _ \<Rightarrow> False))"

definition lengths_differ :: "data_frame \<Rightarrow> pyval \<Rightarrow> bool" where
  "lengths_differ df v = (case v of PList xs \<Rightarrow> length xs \<noteq> length (df_rows df) | _ \<Rightarrow> False)"

text \<open>
  \<^verbatim>\<open>
  exists = ((df["date"] == date) & (df["company"] == company)
            & (df["position"] == jobtitle)).any()
  \<close>
\<close>

definition frame_exists :: "env \<Rightarrow> data_frame \<Rightarrow> string \<Rightarrow> pyval \<Rightarrow> pyval \<Rightarrow> exn + bool" where
  "frame_exists e df d company jobtitle =
     (if lengths_differ df company then Inl ValueError
      else (case scalar_of company of
              None \<Rightarrow> compare_nonscalar e df d company jobtitle
            | Some c \<Rightarrow>
                if lengths_differ df jobtitle then Inl ValueError
                else (case scalar_of jobtitle of
                        None \<Rightarrow> compare_nonscalar e df d company jobtitle
                      | Some j \<Rightarrow>
                          Inr (list_ex (\<lambda>r. cell_eq (f_date r) (Some d) \<and>
                                            cell_eq (f_company r) c \<and>
                                            cell_eq (f_position r) j) (df_rows df)))))"

text \<open>What \<open>to_csv\<close> prints for a cell and for a string or \<open>None\<close>.\<close>

fun nat_text :: "nat \<Rightarrow> string" where
  "nat_text n = (if n < 10 then [digit n] else nat_text (n div 10) @ [digit n])"

declare nat_text.simps [simp del]

definition int_text :: "int \<Rightarrow> string" where
  "int_text i = (if i < 0 then CHR ''-'' # nat_text (nat (- i)) else nat_text (nat i))"

definition cell_text :: "env \<Rightarrow> cell \<Rightarrow> string" where
  "cell_text e c =
     (case c of
        NaN \<Rightarrow> []
      | IntCell i \<Rightarrow> int_text i
      | FloatCell x \<Rightarrow> float_repr e x
      | BoolCell b \<Rightarrow> (if b then ''True'' else ''False'')
      | StrCell s \<Rightarrow> s)"

definition row_text :: "env \<Rightarrow> frame_row \<Rightarrow> csv_row" where
  "row_text e r =
     \<lparr>csv_date = cell_text e (f_date r), csv_week = cell_text e (f_week r),
      csv_company = cell_text e (f_company r), csv_position = cell_text e (f_position r)\<rparr>"

definition scalar_text :: "string option \<Rightarrow> string" where
  "scalar_text v = (case v of Some s \<Rightarrow> s | None \<Rightarrow> [])"

text \<open>
  \<^verbatim>\<open>
  new_row = [date, week, company, jobtitle]
  df.loc[len(df)] = new_row
  \<close>
  A list of four values set as a row of a frame with more columns raises
  \<open>ValueError\<close>. Otherwise the result is given as the table that \<open>to_csv\<close> will
  print. The cells that were read are printed from their inferred values, not from the text
  they were read from; the new row is printed as it is, except that its week goes through
  the float format when the column \<open>week\<close> is \<open>float64\<close>.
\<close>

definition frame_append ::
  "env \<Rightarrow> data_frame \<Rightarrow> string \<Rightarrow> nat \<Rightarrow> pyval \<Rightarrow> pyval \<Rightarrow> exn + csv_row list" where
  "frame_append e df d week company jobtitle =
     (if df_wide df then Inl ValueError
      else (case (scalar_of company, scalar_of jobtitle) of
              (Some c, Some j) \<Rightarrow>
                Inr (map (row_text e) (df_rows df) @
                     [\<lparr>csv_date = d,
                       csv_week = (if df_week_float df then float_repr e (nat_text week)
                                   else nat_text week),
                       csv_company = scalar_text c, csv_position = scalar_text j\<rparr>])
            | _ \<Rightarrow> append_nonscalar e df d week company jobtitle))"

text \<open>
  \<open>df.to_csv(HISTORY_FILE, index=False)\<close> opens the file for writing, which empties it,
  and prints the table. When that fails, the file is left as the failure leaves it: as it
  was, empty, or partly written.
\<close>

definition to_csv :: "csv_row list \<Rightarrow> world \<Rightarrow> exn option \<times> world" where
  "to_csv out w =
     (case history_write_error w of
        None \<Rightarrow> (None, w\<lparr>history := History out\<rparr>)
      | Some (x, left) \<Rightarrow> (Some x, w\<lparr>history := left\<rparr>))"

text \<open>
  The body of the \<open>try\<close> in \<open>log_to_history\<close>:
  \<^verbatim>\<open>
  df = pd.read_csv(HISTORY_FILE)
  exists = (...).any()
  if not exists:
      new_row = [date, week, company, jobtitle]
      df.loc[len(df)] = new_row
      df.to_csv(HISTORY_FILE, index=False)
      logger.info(...)
  else:
      logger.info(...)
  \<close>
\<close>

definition history_try ::
  "env \<Rightarrow> string \<Rightarrow> nat \<Rightarrow> pyval \<Rightarrow> pyval \<Rightarrow> world \<Rightarrow> exn option \<times> world" where
  "history_try e d week company jobtitle w =
     (case read_csv e w of
        Inl x \<Rightarrow> (Some x, w)
      | Inr df \<Rightarrow>
          (case frame_exists e df d company jobtitle of
             Inl x \<Rightarrow> (Some x, w)
           | Inr exists \<Rightarrow>
               if \<not> exists then
                 (case frame_append e df d week company jobtitle of
                    Inl x \<Rightarrow> (Some x, w)
                  | Inr out \<Rightarrow>
                      (case to_csv out w of
                         (Some x, w1) \<Rightarrow> (Some x, w1)
                       | (None, w1) \<Rightarrow> (None, logger INFO (EntryAdded (HISTORY_FILE e)) w1)))
               else (None, logger INFO (EntryExists company) w)))"

text \<open>
  \<open>log_to_history\<close>: without a history file, a warning and nothing else. Otherwise the
  clock is read twice (for the date, then for the week), the company and the position are
  taken from the data, and every exception of the body is caught and logged.
\<close>

definition log_to_history :: "env \<Rightarrow> dict \<Rightarrow> world \<Rightarrow> exn option \<times> world" where
  "log_to_history e data w =
     (if history w = NoHistory
      then (None, logger WARNING (HistoryNotFound (HISTORY_FILE e)) w)
      else
        (case datetime_now e w of (now1, w1) \<Rightarrow>
         case datetime_now e w1 of (now2, w2) \<Rightarrow>
           (let d = strftime_ymd now1;
                week = dt_iso_week now2;
                company = dict_get data (PStr ''company'') (PStr ''Unknown'');
                jobtitle = dict_get data (PStr ''job_title'') (PStr ''Unknown'')
            in case history_try e d week company jobtitle w2 of
                 (None, w3) \<Rightarrow> (None, w3)
               | (Some err, w3) \<Rightarrow> (None, logger ERROR (LoggingError err) w3))))"

text \<open>The invariant of the table: no two rows with the same date, company and
  position.\<close>

definition row_key :: "csv_row \<Rightarrow> string \<times> string \<times> string" where
  "row_key r = (csv_date r, csv_company r, csv_position r)"

definition unique_rows :: "csv_row list \<Rightarrow> bool" where
  "unique_rows rows = distinct (map row_key rows)"

subsection \<open>The entry point\<close>

text \<open>
  Lines 198 to 211 of \<open>main\<close>, the localization:
  \<^verbatim>\<open>
  lang = data.get("language", "de")
  lang_data = data.get(lang, {})
  data.update(lang_data)
  data["lang"] = lang
  if lang == "en":
      data["doc_lang"] = "english"
  elif lang == "de":
      data["doc_lang"] = "ngerman"
  else:
      logger.critical(...)
  \<close>
\<close>

definition resolve_language :: "dict \<Rightarrow> world \<Rightarrow> (exn + dict) \<times> world" where
  "resolve_language data w =
     (let lang = dict_get data (PStr ''language'') (PStr ''de'') in
      if \<not> hashable lang then (Inl TypeError, w)
      else
        (let lang_data = dict_get data lang (PDict []) in
         case py_dict_update data lang_data of
           Inl x \<Rightarrow> (Inl x, w)
         | Inr data1 \<Rightarrow>
             (let data2 = dict_setitem data1 (PStr ''lang'') lang in
              if lang = PStr ''en''
              then (Inr (dict_setitem data2 (PStr ''doc_lang'') (PStr ''english'')), w)
              else if lang = PStr ''de''
              then (Inr (dict_setitem data2 (PStr ''doc_lang'') (PStr ''ngerman'')), w)
              else (Inr data2, logger CRITICAL (NoValidLanguage lang) w))))"

text \<open>
  Lines 217 to 227, the attachments:
  \<^verbatim>\<open>
  valid_attachments = []
  for doc_name in data.get("attachments", []):
      doc_path = ATTACHMENT_DIR / doc_name
      if doc_path.exists():
          valid_attachments.append(doc_name)
      else:
          logger.warning(...)
  data["attachments"] = valid_attachments
  \<close>
  Joining a path with anything but a string raises \<open>TypeError\<close>.
\<close>

fun check_attachments ::
  "env \<Rightarrow> pyval list \<Rightarrow> pyval list \<Rightarrow> world \<Rightarrow> (exn + pyval list) \<times> world" where
  "check_attachments e [] valid_attachments w = (Inr valid_attachments, w)"
| "check_attachments e (doc_name # rest) valid_attachments w =
     (case doc_name of
        PStr s \<Rightarrow>
          (let doc_path = path_div (ATTACHMENT_DIR e) s in
           if path_exists w doc_path
           then check_attachments e rest (valid_attachments @ [doc_name]) w
           else check_attachments e rest valid_attachments
                  (logger WARNING (AttachmentMissing doc_path) w))
      | _ \<Rightarrow> (Inl TypeError, w))"

definition validate_attachments :: "env \<Rightarrow> dict \<Rightarrow> world \<Rightarrow> (exn + dict) \<times> world" where
  "validate_attachments e data w =
     (case py_iter (dict_get data (PStr ''attachments'') (PList [])) of
        Inl x \<Rightarrow> (Inl x, w)
      | Inr requested \<Rightarrow>
          (case check_attachments e requested [] w of
             (Inl x, w1) \<Rightarrow> (Inl x, w1)
           | (Inr valid_attachments, w1) \<Rightarrow>
               (Inr (dict_setitem data (PStr ''attachments'') (PList valid_attachments)), w1)))"

text \<open>
  Lines 229 to 236, the cover-letter text:
  \<^verbatim>\<open>
  if CONTENT_FILE.exists():
      with open(CONTENT_FILE, "r", encoding="utf-8") as f:
          data["content"] = f.read()
  else:
      data["content"] = "Missing application letter text."
      logger.warning(...)
  \<close>
\<close>

definition load_content :: "env \<Rightarrow> dict \<Rightarrow> world \<Rightarrow> (exn + dict) \<times> world" where
  "load_content e data w =
     (if path_exists w (CONTENT_FILE e) then
        (case read_text w (CONTENT_FILE e) of
           Inl x \<Rightarrow> (Inl x, w)
         | Inr s \<Rightarrow> (Inr (dict_setitem data (PStr ''content'') (PStr s)), w))
      else (Inr (dict_setitem data (PStr ''content'') (PStr ''Missing application letter text.'')),
            logger WARNING ContentNotFound w))"

definition docs_to_build :: "(string \<times> string) list" where
  "docs_to_build =
     [(''attachments.tex.j2'', ''attachments.tex''),
      (''cv.tex.j2'', ''cv.tex''),
      (''application_letter.tex.j2'', ''application_letter.tex''),
      (''main.tex.j2'', ''main.tex'')]"

fun build_documents ::
  "env \<Rightarrow> (string \<times> string) list \<Rightarrow> dict \<Rightarrow> world \<Rightarrow> exn option \<times> world" where
  "build_documents e [] data w = (None, w)"
| "build_documents e ((template, output) # rest) data w =
     (let w1 = render_document e template output data w in
      case compile_latex e output w1 of
        (Some x, w2) \<Rightarrow> (Some x, w2)
      | (None, w2) \<Rightarrow> build_documents e rest data w2)"

text \<open>\<open>main\<close> after the configuration is loaded and found to be a non-empty mapping.\<close>

definition main_run :: "env \<Rightarrow> dict \<Rightarrow> world \<Rightarrow> exn option \<times> world" where
  "main_run e data w =
     (case resolve_language data w of
        (Inl x, w1) \<Rightarrow> (Some x, w1)
      | (Inr data1, w1) \<Rightarrow>
          (case validate_attachments e data1 w1 of
             (Inl x, w2) \<Rightarrow> (Some x, w2)
           | (Inr data2, w2) \<Rightarrow>
               (case load_content e data2 w2 of
                  (Inl x, w3) \<Rightarrow> (Some x, w3)
                | (Inr data3, w3) \<Rightarrow>
                    (case build_documents e docs_to_build data3 w3 of
                       (Some x, w4) \<Rightarrow> (Some x, w4)
                     | (None, w4) \<Rightarrow>
                         (case archive_results e data3 (logger INFO RenderingDone w4) of
                            (Some x, w5) \<Rightarrow> (Some x, w5)
                          | (None, w5) \<Rightarrow> log_to_history e data3 w5)))))"

text \<open>
  \<^verbatim>\<open>
  def main():
      data = load_config()
      if not data:
          logger.error(f"{CROSS_SYMBOL} Error loading Data.")
          return
      ...
  \<close>
  The result is the exception that leaves \<open>main\<close>, if any, and the world it leaves
  behind. A configuration that is true but not a mapping has no \<open>get\<close>.
\<close>

definition main :: "env \<Rightarrow> world \<Rightarrow> exn option \<times> world" where
  "main e w =
     (case load_config e w of
        (Inl x, w1) \<Rightarrow> (Some x, w1)
      | (Inr data, w1) \<Rightarrow>
          if \<not> truthy data then (None, logger ERROR ErrorLoadingData w1)
          else (case data of
                  PDict d \<Rightarrow> main_run e d w1
                | _ \<Rightarrow> (Some AttributeError, w1)))"

subsection \<open>Notions the properties are stated with\<close>

text \<open>What the body of \<open>log_to_history\<close> is called with in a world: the date of the first
  clock reading, the week of the second, the company and the position of the data.\<close>

definition history_frame_exists :: "env \<Rightarrow> dict \<Rightarrow> world \<Rightarrow> data_frame \<Rightarrow> exn + bool" where
  "history_frame_exists e data w df =
     frame_exists e df (strftime_ymd (clock e (ticks w)))
       (dict_get data (PStr ''company'') (PStr ''Unknown''))
       (dict_get data (PStr ''job_title'') (PStr ''Unknown''))"

definition history_frame_append ::
  "env \<Rightarrow> dict \<Rightarrow> world \<Rightarrow> data_frame \<Rightarrow> exn + csv_row list" where
  "history_frame_append e data w df =
     frame_append e df (strftime_ymd (clock e (ticks w)))
       (dt_iso_week (clock e (Suc (ticks w))))
       (dict_get data (PStr ''company'') (PStr ''Unknown''))
       (dict_get data (PStr ''job_title'') (PStr ''Unknown''))"

text \<open>
  A run on the first of March 2024, for the examples below. None of the examples has a
  field that reads as a floating-point number, or a company or position that is not a
  string.
\<close>

definition march_first :: datetime where
  "march_first = \<lparr>dt_year = 2024, dt_month = 3, dt_day = 1, dt_iso_week = 9\<rparr>"

definition example_env :: env where
  "example_env =
     \<lparr>base_dir = [''home'', ''me'', ''jobs''],
      clock = (\<lambda>n. march_first),
      yaml_safe_load = (\<lambda>s. if s = [] then Inr PNone else Inl YAMLError),
      jinja_compile = (\<lambda>s. None),
      jinja_render = (\<lambda>s d. Inr s),
      xelatex = (\<lambda>cwd tex fs. Exited 1 ''! Emergency stop.'' fs),
      float_text = (\<lambda>s. False),
      float_repr = (\<lambda>s. s),
      compare_nonscalar = (\<lambda>df d company jobtitle. Inl ValueError),
      append_nonscalar = (\<lambda>df d week company jobtitle. Inl ValueError)\<rparr>"

definition example_data :: dict where
  "example_data =
     [(PStr ''company'', PStr ''Acme Corp''), (PStr ''job_title'', PStr ''Senior Eng/Lead'')]"

definition earlier_row :: csv_row where
  "earlier_row =
     \<lparr>csv_date = ''2024-02-27'', csv_week = ''9'', csv_company = ''Initech'',
      csv_position = ''Developer''\<rparr>"

definition example_world :: world where
  "example_world =
     \<lparr>files = Map.empty, dirs = [], history = History [earlier_row],
      history_write_error = None, ticks = 0, logged = []\<rparr>"

text \<open>
  A history file with a header and no rows, and a company whose name is a number; a history
  file whose one row has a company written with leading zeros.
\<close>

definition header_only_world :: world where
  "header_only_world = example_world\<lparr>history := History []\<rparr>"

definition numeric_company_data :: dict where
  "numeric_company_data = [(PStr ''company'', PStr ''123''), (PStr ''job_title'', PStr ''Dev'')]"

definition numeric_company_row :: csv_row where
  "numeric_company_row =
     \<lparr>csv_date = ''2024-03-01'', csv_week = ''9'', csv_company = ''123'',
      csv_position = ''Dev''\<rparr>"

definition leading_zeros_row :: csv_row where
  "leading_zeros_row =
     \<lparr>csv_date = ''2024-02-27'', csv_week = ''9'', csv_company = ''007'',
      csv_position = ''Developer''\<rparr>"

definition leading_zeros_world :: world where
  "leading_zeros_world = example_world\<lparr>history := History [leading_zeros_row]\<rparr>"

text \<open>A company given as a list of two names, a history file with a fifth column, and a
  disk that fills up while the table is written.\<close>

definition list_company_data :: dict where
  "list_company_data =
     [(PStr ''company'', PList [PStr ''Acme'', PStr ''Corp'']), (PStr ''job_title'', PStr ''Dev'')]"

definition wide_world :: world where
  "wide_world = example_world\<lparr>history := WideHistory [earlier_row]\<rparr>"

definition acme_row :: csv_row where
  "acme_row =
     \<lparr>csv_date = ''2024-03-01'', csv_week = ''9'', csv_company = ''Acme Corp'',
      csv_position = ''Senior Eng/Lead''\<rparr>"

definition disk_full_world :: world where
  "disk_full_world =
     example_world\<lparr>history_write_error := Some (OSError, BadHistory EmptyDataError)\<rparr>"

text \<open>A configuration in English, and one that leaves the language to the default.\<close>

definition english_data :: dict where
  "english_data =
     [(PStr ''language'', PStr ''en''),
      (PStr ''company'', PStr ''Firma''),
      (PStr ''job_title'', PStr ''Entwickler''),
      (PStr ''en'', PDict [(PStr ''company'', PStr ''Acme''), (PStr ''job_title'', PStr ''Developer'')]),
      (PStr ''de'', PDict [(PStr ''company'', PStr ''Acme GmbH'')])]"

definition german_data :: dict where
  "german_data = [(PStr ''de'', PDict [(PStr ''company'', PStr ''Acme GmbH'')])]"

text \<open>Two requested attachments, of which only \<open>a.pdf\<close> is on disk.\<close>

definition attachments_data :: dict where
  "attachments_data = [(PStr ''attachments'', PList [PStr ''a.pdf'', PStr ''b.pdf''])]"

definition attachments_world :: world where
  "attachments_world =
     example_world\<lparr>files := [[''home'', ''me'', ''jobs'', ''attachments'', ''a.pdf''] \<mapsto> ''%PDF'']\<rparr>"

text \<open>A configuration file that is there but empty.\<close>

definition empty_config_world :: world where
  "empty_config_world =
     example_world\<lparr>files := [[''home'', ''me'', ''jobs'', ''config.yaml''] \<mapsto> []]\<rparr>"

text \<open>
  A directory after a successful build, with the cover-letter text where \<open>CONTENT_FILE\<close>
  points (\<open>application_text.txt\<close>); and the same directory with, in addition, a file
  \<open>application_letter_text.txt\<close> of another content.
\<close>

definition letter_world :: world where
  "letter_world =
     example_world\<lparr>files :=
       [[''home'', ''me'', ''jobs'', ''templates'', ''cv.pdf''] \<mapsto> ''%PDF cv'',
        [''home'', ''me'', ''jobs'', ''templates'', ''application_letter.pdf''] \<mapsto> ''%PDF letter'',
        [''home'', ''me'', ''jobs'', ''templates'', ''attachments.pdf''] \<mapsto> ''%PDF attachments'',
        [''home'', ''me'', ''jobs'', ''config.yaml''] \<mapsto> ''company: Acme Corp'',
        [''home'', ''me'', ''jobs'', ''application_text.txt''] \<mapsto> ''Dear Acme'']\<rparr>"

definition draft_world :: world where
  "draft_world =
     letter_world\<lparr>files :=
       (files letter_world)
         ([''home'', ''me'', ''jobs'', ''application_letter_text.txt''] \<mapsto> ''Old draft'')\<rparr>"

definition archive_folder :: path where
  "archive_folder =
     [''home'', ''me'', ''jobs'', ''applications'', ''2024-03-01_acme_corp_senior_eng-lead'']"

section \<open>Properties\<close>

subsection \<open>The name sanitizer\<close>

lemma in_range_lower:
  "in_range CHR ''a'' CHR ''z'' c \<longleftrightarrow> c \<in> set ''abcdefghijklmnopqrstuvwxyz''"
  unfolding in_range_def by (cases c) simp

lemma in_range_upper:
  "in_range CHR ''A'' CHR ''Z'' c \<longleftrightarrow> c \<in> set ''ABCDEFGHIJKLMNOPQRSTUVWXYZ''"
  unfolding in_range_def by (cases c) simp

lemma in_range_digit:
  "in_range CHR ''0'' CHR ''9'' c \<longleftrightarrow> c \<in> set ''0123456789''"
  unfolding in_range_def by (cases c) simp

lemma shell_class_alphabet: "shell_class c \<longleftrightarrow> c \<in> shell_safe_alphabet"
proof -
  have "shell_safe_alphabet =
      set ''abcdefghijklmnopqrstuvwxyz'' \<union> set ''ABCDEFGHIJKLMNOPQRSTUVWXYZ'' \<union>
      set ''0123456789'' \<union> {CHR ''_'', CHR ''-''}"
    unfolding shell_safe_alphabet_def by auto
  then show ?thesis
    unfolding shell_class_def in_range_lower in_range_upper in_range_digit by blast
qed

lemma spec_replace_char_safe: "c \<in> shell_safe_alphabet \<Longrightarrow> spec_replace_char c = c"
  unfolding spec_replace_char_def shell_safe_alphabet_def by auto

lemma sanitize_is_spec: "create_shell_friendly_name s = spec_sanitize s"
  unfolding create_shell_friendly_name_def spec_sanitize_def str_replace_def re_sub_delete_def
    Let_def
  by (induction s) (auto simp: shell_class_alphabet spec_replace_char_def)

lemma spec_sanitize_fixed: "set s \<subseteq> shell_safe_alphabet \<Longrightarrow> spec_sanitize s = s"
  unfolding spec_sanitize_def
  by (induction s) (auto simp: spec_replace_char_safe)

lemma spec_sanitize_range: "set (spec_sanitize s) \<subseteq> shell_safe_alphabet"
  unfolding spec_sanitize_def by auto

text \<open>
  C3. For every input string, the sanitizer computes what the specification describes:
  spaces become underscores and slashes become hyphens, then every character outside
  \<open>[A-Za-z0-9_-]\<close> is removed; so every character of the output is in that alphabet.
\<close>

theorem sanitizer_meets_contract:
  "create_shell_friendly_name s = spec_sanitize s \<and>
   set (create_shell_friendly_name s) \<subseteq> shell_safe_alphabet"
  by (simp add: sanitize_is_spec spec_sanitize_range)

text \<open>
  C9. The sanitizer is idempotent: sanitizing its own output changes nothing.
\<close>

theorem sanitizer_idempotent:
  "create_shell_friendly_name (create_shell_friendly_name s) = create_shell_friendly_name s"
  by (simp add: sanitize_is_spec spec_sanitize_fixed spec_sanitize_range)

subsection \<open>The archive folder\<close>

text \<open>
  C4. On 2024-03-01, for the company \<open>Acme Corp\<close> and the job title
  \<open>Senior Eng/Lead\<close>, the archiver computes the folder name
  \<open>2024-03-01_acme_corp_senior_eng-lead\<close> (and the sanitized company and job it is
  built from), whatever the ISO week of the clock reading.
\<close>

theorem archive_folder_name_example:
  "archive_names \<lparr>dt_year = 2024, dt_month = 3, dt_day = 1, dt_iso_week = wk\<rparr>
     [(PStr ''company'', PStr ''Acme Corp''), (PStr ''job_title'', PStr ''Senior Eng/Lead'')]
   = Inr (''acme_corp'', ''senior_eng-lead'', ''2024-03-01_acme_corp_senior_eng-lead'')"
  by code_simp

subsection \<open>The history logger\<close>

lemma logger_fields [simp]:
  "files (logger lvl ev w) = files w"
  "dirs (logger lvl ev w) = dirs w"
  "history (logger lvl ev w) = history w"
  "history_write_error (logger lvl ev w) = history_write_error w"
  "ticks (logger lvl ev w) = ticks w"
  "logged (logger lvl ev w) = logged w @ [(lvl, ev)]"
  by (simp_all add: logger_def)

lemma log_to_history_returns: "fst (log_to_history e data w) = None"
  by (simp add: log_to_history_def datetime_now_def Let_def split: prod.splits option.splits)

lemma log_to_history_missing:
  "history w = NoHistory \<Longrightarrow>
   log_to_history e data w = (None, logger WARNING (HistoryNotFound (HISTORY_FILE e)) w)"
  by (simp add: log_to_history_def)

lemma read_csv_ticks [simp]: "read_csv e (w\<lparr>ticks := n\<rparr>) = read_csv e w"
  by (simp add: read_csv_def)

lemma log_to_history_read_raises:
  "history w \<noteq> NoHistory \<Longrightarrow> read_csv e w = Inl x \<Longrightarrow>
   history (snd (log_to_history e data w)) = history w \<and>
   last (logged (snd (log_to_history e data w))) = (ERROR, LoggingError x)"
  by (simp add: log_to_history_def datetime_now_def history_try_def Let_def)

lemma read_csv_exists: "read_csv e w = Inr df \<Longrightarrow> history w \<noteq> NoHistory"
  by (auto simp: read_csv_def)

lemma log_to_history_check_raises:
  "read_csv e w = Inr df \<Longrightarrow> history_frame_exists e data w df = Inl x \<Longrightarrow>
   history (snd (log_to_history e data w)) = history w \<and>
   last (logged (snd (log_to_history e data w))) = (ERROR, LoggingError x)"
  by (frule read_csv_exists)
     (simp add: log_to_history_def datetime_now_def history_try_def Let_def
      history_frame_exists_def)

lemma log_to_history_append_raises:
  "read_csv e w = Inr df \<Longrightarrow> history_frame_exists e data w df = Inr False \<Longrightarrow>
   history_frame_append e data w df = Inl x \<Longrightarrow>
   history (snd (log_to_history e data w)) = history w \<and>
   last (logged (snd (log_to_history e data w))) = (ERROR, LoggingError x)"
  by (frule read_csv_exists)
     (simp add: log_to_history_def datetime_now_def history_try_def Let_def
      history_frame_exists_def history_frame_append_def)

lemma log_to_history_write_raises:
  "read_csv e w = Inr df \<Longrightarrow> history_frame_exists e data w df = Inr False \<Longrightarrow>
   history_frame_append e data w df = Inr out \<Longrightarrow>
   history_write_error w = Some (x, left) \<Longrightarrow>
   history (snd (log_to_history e data w)) = left \<and>
   last (logged (snd (log_to_history e data w))) = (ERROR, LoggingError x)"
  by (frule read_csv_exists)
     (simp add: log_to_history_def datetime_now_def history_try_def Let_def
      history_frame_exists_def history_frame_append_def to_csv_def)

text \<open>
  C6. History logging never aborts the run: \<open>log_to_history\<close> returns without an
  exception in every world. Without a history file it logs a warning and does nothing else,
  so no file is created. When reading the table raises, when the existence check raises and
  when setting the new row raises, the file is left as it was and the exception is logged
  as an error. When writing raises, the exception is logged as an error and the file is
  what the failed write left of it.
\<close>

theorem log_to_history_never_raises:
  "fst (log_to_history e data w) = None \<and>
   (history w = NoHistory \<longrightarrow>
      log_to_history e data w = (None, logger WARNING (HistoryNotFound (HISTORY_FILE e)) w) \<and>
      history (snd (log_to_history e data w)) = NoHistory) \<and>
   (history w \<noteq> NoHistory \<and> read_csv e w = Inl x \<longrightarrow>
      history (snd (log_to_history e data w)) = history w \<and>
      last (logged (snd (log_to_history e data w))) = (ERROR, LoggingError x)) \<and>
   (read_csv e w = Inr df \<and> history_frame_exists e data w df = Inl x \<longrightarrow>
      history (snd (log_to_history e data w)) = history w \<and>
      last (logged (snd (log_to_history e data w))) = (ERROR, LoggingError x)) \<and>
   (read_csv e w = Inr df \<and> history_frame_exists e data w df = Inr False \<and>
    history_frame_append e data w df = Inl x \<longrightarrow>
      history (snd (log_to_history e data w)) = history w \<and>
      last (logged (snd (log_to_history e data w))) = (ERROR, LoggingError x)) \<and>
   (read_csv e w = Inr df \<and> history_frame_exists e data w df = Inr False \<and>
    history_frame_append e data w df = Inr out \<and>
    history_write_error w = Some (x, left) \<longrightarrow>
      history (snd (log_to_history e data w)) = left \<and>
      last (logged (snd (log_to_history e data w))) = (ERROR, LoggingError x))"
  using log_to_history_returns [of e data w] log_to_history_missing [of w e data]
    log_to_history_read_raises [of w e x data] log_to_history_check_raises [of e w df data x]
    log_to_history_append_raises [of e w df data x]
    log_to_history_write_raises [of e w df data out x left]
  by (auto simp del: split_paired_All split_paired_Ex)

theorem log_to_history_never_raises_witness:
  "history (example_world\<lparr>history := NoHistory\<rparr>) = NoHistory \<and>
   log_to_history example_env example_data (example_world\<lparr>history := NoHistory\<rparr>)
     = (None, logger WARNING (HistoryNotFound (HISTORY_FILE example_env))
               (example_world\<lparr>history := NoHistory\<rparr>)) \<and>
   history (example_world\<lparr>history := BadHistory ParserError\<rparr>) \<noteq> NoHistory \<and>
   read_csv example_env (example_world\<lparr>history := BadHistory ParserError\<rparr>)
     = Inl ParserError \<and>
   last (logged (snd (log_to_history example_env example_data
          (example_world\<lparr>history := BadHistory ParserError\<rparr>))))
     = (ERROR, LoggingError ParserError) \<and>
   read_csv example_env example_world = Inr (infer_frame example_env False [earlier_row]) \<and>
   history_frame_exists example_env list_company_data example_world
       (infer_frame example_env False [earlier_row]) = Inl ValueError \<and>
   last (logged (snd (log_to_history example_env list_company_data example_world)))
     = (ERROR, LoggingError ValueError) \<and>
   read_csv example_env wide_world = Inr (infer_frame example_env True [earlier_row]) \<and>
   history_frame_exists example_env example_data wide_world
       (infer_frame example_env True [earlier_row]) = Inr False \<and>
   history_frame_append example_env example_data wide_world
       (infer_frame example_env True [earlier_row]) = Inl ValueError \<and>
   history (snd (log_to_history example_env example_data wide_world)) = history wide_world \<and>
   last (logged (snd (log_to_history example_env example_data wide_world)))
     = (ERROR, LoggingError ValueError) \<and>
   read_csv example_env disk_full_world = Inr (infer_frame example_env False [earlier_row]) \<and>
   history_frame_exists example_env example_data disk_full_world
       (infer_frame example_env False [earlier_row]) = Inr False \<and>
   history_frame_append example_env example_data disk_full_world
       (infer_frame example_env False [earlier_row]) = Inr [earlier_row, acme_row] \<and>
   history_write_error disk_full_world = Some (OSError, BadHistory EmptyDataError) \<and>
   fst (log_to_history example_env example_data disk_full_world) = None \<and>
   history (snd (log_to_history example_env example_data disk_full_world))
     = BadHistory EmptyDataError \<and>
   last (logged (snd (log_to_history example_env example_data disk_full_world)))
     = (ERROR, LoggingError OSError)"
proof -
  let ?df = "infer_frame example_env False [earlier_row]"
  let ?wide = "infer_frame example_env True [earlier_row]"
  have h1: "history (example_world\<lparr>history := NoHistory\<rparr>) = NoHistory"
    by simp
  have h2: "history (example_world\<lparr>history := BadHistory ParserError\<rparr>) \<noteq> NoHistory \<and>
      read_csv example_env (example_world\<lparr>history := BadHistory ParserError\<rparr>)
        = Inl ParserError"
    by (simp add: read_csv_def)
  have h3: "read_csv example_env example_world = Inr ?df \<and>
      history_frame_exists example_env list_company_data example_world ?df = Inl ValueError"
    by code_simp
  have h4: "read_csv example_env wide_world = Inr ?wide \<and>
      history_frame_exists example_env example_data wide_world ?wide = Inr False \<and>
      history_frame_append example_env example_data wide_world ?wide = Inl ValueError"
    by code_simp
  have h5: "read_csv example_env disk_full_world = Inr ?df \<and>
      history_frame_exists example_env example_data disk_full_world ?df = Inr False \<and>
      history_frame_append example_env example_data disk_full_world ?df
        = Inr [earlier_row, acme_row] \<and>
      history_write_error disk_full_world = Some (OSError, BadHistory EmptyDataError)"
    by code_simp
  note t1 = log_to_history_never_raises [where e = example_env and data = example_data
      and w = "example_world\<lparr>history := NoHistory\<rparr>"]
  note t2 = log_to_history_never_raises [where e = example_env and data = example_data
      and w = "example_world\<lparr>history := BadHistory ParserError\<rparr>" and x = ParserError]
  note t3 = log_to_history_never_raises [where e = example_env and data = list_company_data
      and w = example_world and df = ?df and x = ValueError]
  note t4 = log_to_history_never_raises [where e = example_env and data = example_data
      and w = wide_world and df = ?wide and x = ValueError]
  note t5 = log_to_history_never_raises [where e = example_env and data = example_data
      and w = disk_full_world and df = ?df and x = OSError
      and out = "[earlier_row, acme_row]" and left = "BadHistory EmptyDataError"]
  have c1: "log_to_history example_env example_data (example_world\<lparr>history := NoHistory\<rparr>)
     = (None, logger WARNING (HistoryNotFound (HISTORY_FILE example_env))
               (example_world\<lparr>history := NoHistory\<rparr>))"
    using t1 h1 by blast
  have c2: "last (logged (snd (log_to_history example_env example_data
          (example_world\<lparr>history := BadHistory ParserError\<rparr>))))
     = (ERROR, LoggingError ParserError)"
    using t2 h2 by blast
  have c3: "last (logged (snd (log_to_history example_env list_company_data example_world)))
     = (ERROR, LoggingError ValueError)"
    using t3 h3 by blast
  have c4: "history (snd (log_to_history example_env example_data wide_world))
        = history wide_world \<and>
      last (logged (snd (log_to_history example_env example_data wide_world)))
        = (ERROR, LoggingError ValueError)"
    using t4 h4 by blast
  have c5: "fst (log_to_history example_env example_data disk_full_world) = None \<and>
      history (snd (log_to_history example_env example_data disk_full_world))
        = BadHistory EmptyDataError \<and>
      last (logged (snd (log_to_history example_env example_data disk_full_world)))
        = (ERROR, LoggingError OSError)"
    using t5 h5 by blast
  from h1 h2 h3 h4 h5 c1 c2 c3 c4 c5 show ?thesis by blast
qed

text \<open>
  C1. The history logger does not keep the invariant of the table. On a history file with
  its header and no rows (which has the invariant), logging the company \<open>123\<close> twice on
  the same day leaves two rows with the same date, company and position: the first call
  writes the row, the second reads the column \<open>company\<close> back as integers, finds no cell
  equal to the string \<open>123\<close> and appends the row again.
\<close>

theorem history_duplicate_numeric_company:
  "history header_only_world = History [] \<and> unique_rows [] \<and>
   history (snd (log_to_history example_env numeric_company_data header_only_world))
     = History [numeric_company_row] \<and>
   history (snd (log_to_history example_env numeric_company_data
      (snd (log_to_history example_env numeric_company_data header_only_world))))
     = History [numeric_company_row, numeric_company_row] \<and>
   \<not> unique_rows [numeric_company_row, numeric_company_row]"
  by code_simp

text \<open>
  C10. Appending a row rewrites the rows that were there. With a table of one row whose
  company is written \<open>007\<close>, logging another application leaves that row with the company
  \<open>7\<close>, followed by the new row: the table is printed from the values that \<open>read_csv\<close>
  inferred, not from the text of the file.
\<close>

theorem history_append_rewrites_rows:
  "history leading_zeros_world = History [leading_zeros_row] \<and>
   csv_company leading_zeros_row = ''007'' \<and>
   history (snd (log_to_history example_env example_data leading_zeros_world))
     = History [leading_zeros_row\<lparr>csv_company := ''7''\<rparr>, acme_row]"
  by code_simp

subsection \<open>The entry point\<close>

text \<open>
  C5. Without a usable configuration the run stops at once: when the configuration file
  does not exist, and when it parses to a false value, \<open>main\<close> returns without an exception
  and the world it leaves differs from the one it found only by the error messages in the
  log. No file, directory, history row or clock reading changes, so nothing was localized,
  rendered, archived or logged to the history.
\<close>

theorem main_aborts_without_config:
  "(\<not> path_exists w (CONFIG_FILE e) \<longrightarrow>
      main e w = (None, logger ERROR ErrorLoadingData
                          (logger ERROR (ConfigNotFound (CONFIG_FILE e)) w))) \<and>
   (files w (CONFIG_FILE e) = Some s \<and> yaml_safe_load e s = Inr v \<and> \<not> truthy v \<longrightarrow>
      main e w = (None, logger ERROR ErrorLoadingData w))"
  by (simp add: main_def load_config_def path_exists_def read_text_def)

theorem main_aborts_without_config_witness:
  "\<not> path_exists example_world (CONFIG_FILE example_env) \<and>
   main example_env example_world
     = (None, logger ERROR ErrorLoadingData
                (logger ERROR (ConfigNotFound (CONFIG_FILE example_env)) example_world)) \<and>
   files empty_config_world (CONFIG_FILE example_env) = Some [] \<and>
   yaml_safe_load example_env [] = Inr PNone \<and> \<not> truthy PNone \<and>
   main example_env empty_config_world = (None, logger ERROR ErrorLoadingData empty_config_world)"
proof -
  have h1: "\<not> path_exists example_world (CONFIG_FILE example_env)"
    by (simp add: path_exists_def example_world_def)
  have h2: "files empty_config_world (CONFIG_FILE example_env) = Some [] \<and>
      yaml_safe_load example_env [] = Inr PNone \<and> \<not> truthy PNone"
    by (simp add: empty_config_world_def CONFIG_FILE_def example_env_def path_div_def
        path_parts_def)
  have c1: "main example_env example_world
     = (None, logger ERROR ErrorLoadingData
                (logger ERROR (ConfigNotFound (CONFIG_FILE example_env)) example_world))"
    by (rule mp [OF conjunct1 [OF main_aborts_without_config
          [where e = example_env and w = example_world and s = "[]" and v = PNone]] h1])
  have c2: "main example_env empty_config_world
     = (None, logger ERROR ErrorLoadingData empty_config_world)"
    by (rule mp [OF conjunct2 [OF main_aborts_without_config
          [where e = example_env and w = empty_config_world and s = "[]" and v = PNone]] h2])
  from h1 h2 c1 c2 show ?thesis by (intro conjI) simp_all
qed

lemma map_of_dict_setitem:
  "map_of (dict_setitem d k v) k' = (if k' = k then Some v else map_of d k')"
  by (simp add: dict_setitem_def update_conv')

lemma map_of_fold_setitem:
  "map_of (fold (\<lambda>k acc. case map_of other k of Some v \<Rightarrow> dict_setitem acc k v | None \<Rightarrow> acc) ks d) k' =
     (if k' \<in> set ks \<and> map_of other k' \<noteq> None then map_of other k' else map_of d k')"
proof (induction ks arbitrary: d)
  case Nil
  then show ?case by simp
next
  case (Cons k ks)
  show ?case
    by (cases "map_of other k") (auto simp: Cons.IH map_of_dict_setitem)
qed

lemma map_of_dict_update:
  "map_of (dict_update d other) k =
     (case map_of other k of Some v \<Rightarrow> Some v | None \<Rightarrow> map_of d k)"
proof (cases "map_of other k")
  case None
  then show ?thesis by (simp add: dict_update_def map_of_fold_setitem)
next
  case (Some v)
  then have "k \<in> set (map fst other)"
    by (metis map_of_eq_None_iff option.distinct(1) set_map)
  with Some show ?thesis by (simp add: dict_update_def map_of_fold_setitem)
qed

text \<open>
  C7. Localization: when \<open>language\<close> is \<open>en\<close> and the \<open>en\<close> sub-mapping gives
  \<open>company\<close> a value (\<open>Acme\<close>, say), the resolved data has that value as its top-level
  \<open>company\<close> and \<open>english\<close> as \<open>doc_lang\<close>; when the language is \<open>de\<close> (given or
  by default), \<open>doc_lang\<close> is \<open>ngerman\<close>. Nothing is logged in either case.
\<close>

theorem localization_merges:
  "(map_of data (PStr ''language'') = Some (PStr ''en'') \<and>
    map_of data (PStr ''en'') = Some (PDict sub) \<and>
    map_of sub (PStr ''company'') = Some v \<longrightarrow>
      (case resolve_language data w of
         (Inr data', w') \<Rightarrow>
            map_of data' (PStr ''company'') = Some v \<and>
            map_of data' (PStr ''doc_lang'') = Some (PStr ''english'') \<and> w' = w
       | (Inl x, w') \<Rightarrow> False)) \<and>
   (dict_get data (PStr ''language'') (PStr ''de'') = PStr ''de'' \<and>
    dict_get data (PStr ''de'') (PDict []) = PDict sub \<longrightarrow>
      (case resolve_language data w of
         (Inr data', w') \<Rightarrow>
            map_of data' (PStr ''doc_lang'') = Some (PStr ''ngerman'') \<and> w' = w
       | (Inl x, w') \<Rightarrow> False))"
proof (intro conjI impI)
  assume "map_of data (PStr ''language'') = Some (PStr ''en'') \<and>
    map_of data (PStr ''en'') = Some (PDict sub) \<and>
    map_of sub (PStr ''company'') = Some v"
  then show "case resolve_language data w of
         (Inr data', w') \<Rightarrow>
            map_of data' (PStr ''company'') = Some v \<and>
            map_of data' (PStr ''doc_lang'') = Some (PStr ''english'') \<and> w' = w
       | (Inl x, w') \<Rightarrow> False"
    by (simp add: resolve_language_def dict_get_def Let_def map_of_dict_setitem
        map_of_dict_update)
next
  assume "dict_get data (PStr ''language'') (PStr ''de'') = PStr ''de'' \<and>
    dict_get data (PStr ''de'') (PDict []) = PDict sub"
  then show "case resolve_language data w of
         (Inr data', w') \<Rightarrow>
            map_of data' (PStr ''doc_lang'') = Some (PStr ''ngerman'') \<and> w' = w
       | (Inl x, w') \<Rightarrow> False"
    by (simp add: resolve_language_def Let_def map_of_dict_setitem)
qed

theorem localization_merges_witness:
  "map_of english_data (PStr ''language'') = Some (PStr ''en'') \<and>
   map_of english_data (PStr ''en'')
     = Some (PDict [(PStr ''company'', PStr ''Acme''), (PStr ''job_title'', PStr ''Developer'')]) \<and>
   map_of [(PStr ''company'', PStr ''Acme''), (PStr ''job_title'', PStr ''Developer'')]
     (PStr ''company'') = Some (PStr ''Acme'') \<and>
   (case resolve_language english_data example_world of
      (Inr data', w') \<Rightarrow>
         map_of data' (PStr ''company'') = Some (PStr ''Acme'') \<and>
         map_of data' (PStr ''doc_lang'') = Some (PStr ''english'') \<and> w' = example_world
    | (Inl x, w') \<Rightarrow> False) \<and>
   dict_get german_data (PStr ''language'') (PStr ''de'') = PStr ''de'' \<and>
   dict_get german_data (PStr ''de'') (PDict []) = PDict [(PStr ''company'', PStr ''Acme GmbH'')] \<and>
   (case resolve_language german_data example_world of
      (Inr data', w') \<Rightarrow>
         map_of data' (PStr ''doc_lang'') = Some (PStr ''ngerman'') \<and> w' = example_world
    | (Inl x, w') \<Rightarrow> False)"
proof -
  have h1: "map_of english_data (PStr ''language'') = Some (PStr ''en'')"
    by (simp add: english_data_def)
  have h2: "map_of english_data (PStr ''en'')
     = Some (PDict [(PStr ''company'', PStr ''Acme''), (PStr ''job_title'', PStr ''Developer'')])"
    by (simp add: english_data_def)
  have h3: "map_of [(PStr ''company'', PStr ''Acme''), (PStr ''job_title'', PStr ''Developer'')]
     (PStr ''company'') = Some (PStr ''Acme'')"
    by simp
  have h4: "dict_get german_data (PStr ''language'') (PStr ''de'') = PStr ''de''"
    by (simp add: german_data_def dict_get_def)
  have h5: "dict_get german_data (PStr ''de'') (PDict [])
      = PDict [(PStr ''company'', PStr ''Acme GmbH'')]"
    by (simp add: german_data_def dict_get_def)
  have c1: "case resolve_language english_data example_world of
      (Inr data', w') \<Rightarrow>
         map_of data' (PStr ''company'') = Some (PStr ''Acme'') \<and>
         map_of data' (PStr ''doc_lang'') = Some (PStr ''english'') \<and> w' = example_world
    | (Inl x, w') \<Rightarrow> False"
    by (rule mp [OF conjunct1 [OF localization_merges [of english_data
        "[(PStr ''company'', PStr ''Acme''), (PStr ''job_title'', PStr ''Developer'')]"
        "PStr ''Acme''" example_world]]]) (intro conjI h1 h2 h3)
  have c2: "case resolve_language german_data example_world of
      (Inr data', w') \<Rightarrow>
         map_of data' (PStr ''doc_lang'') = Some (PStr ''ngerman'') \<and> w' = example_world
    | (Inl x, w') \<Rightarrow> False"
    by (rule mp [OF conjunct2 [OF localization_merges [of german_data
        "[(PStr ''company'', PStr ''Acme GmbH'')]" "PStr ''Acme''" example_world]]])
       (intro conjI h4 h5)
  show ?thesis
    by (intro conjI h1 h2 h3 h4 h5 c1 c2)
qed

lemma path_exists_logger [simp]: "path_exists (logger lvl ev w) p = path_exists w p"
  by (simp add: path_exists_def)

lemma check_attachments_strings:
  "\<exists>w'. check_attachments e (map PStr names) valid w =
      (Inr (valid @ map PStr (filter (\<lambda>n. path_exists w (path_div (ATTACHMENT_DIR e) n)) names)), w')
    \<and> (\<forall>p. path_exists w' p = path_exists w p)"
proof (induction names arbitrary: valid w)
  case Nil
  then show ?case by simp
next
  case (Cons n names)
  show ?case
  proof (cases "path_exists w (path_div (ATTACHMENT_DIR e) n)")
    case True
    with Cons.IH [of "valid @ [PStr n]" w] show ?thesis by (simp add: Let_def)
  next
    case False
    with Cons.IH [of valid "logger WARNING (AttachmentMissing (path_div (ATTACHMENT_DIR e) n)) w"]
    show ?thesis by (simp add: Let_def)
  qed
qed

text \<open>
  C8. Attachment validation: for every requested list of file names, the \<open>attachments\<close>
  entry of the data becomes the list of those names, in the order requested, for which
  \<open>ATTACHMENT_DIR / name\<close> exists; the rest of the data is unchanged. With \<open>a.pdf\<close>
  and \<open>b.pdf\<close> requested and only \<open>a.pdf\<close> on disk, the result is \<open>[a.pdf]\<close>.
\<close>

theorem attachments_filtered:
  "map_of data (PStr ''attachments'') = Some (PList (map PStr names)) \<longrightarrow>
     fst (validate_attachments e data w) =
       Inr (dict_setitem data (PStr ''attachments'')
         (PList (map PStr
           (filter (\<lambda>n. path_exists w (path_div (ATTACHMENT_DIR e) n)) names))))"
proof
  assume h: "map_of data (PStr ''attachments'') = Some (PList (map PStr names))"
  obtain w' where "check_attachments e (map PStr names) [] w =
      (Inr ([] @ map PStr (filter (\<lambda>n. path_exists w (path_div (ATTACHMENT_DIR e) n)) names)), w')"
    using check_attachments_strings [of e names "[]" w] by blast
  with h show "fst (validate_attachments e data w) =
       Inr (dict_setitem data (PStr ''attachments'')
         (PList (map PStr
           (filter (\<lambda>n. path_exists w (path_div (ATTACHMENT_DIR e) n)) names))))"
    by (simp add: validate_attachments_def dict_get_def)
qed

lemma a_pdf_exists: "path_exists attachments_world (path_div (ATTACHMENT_DIR example_env) ''a.pdf'')"
  by (simp add: path_exists_def attachments_world_def ATTACHMENT_DIR_def path_div_def
      path_parts_def example_env_def)

lemma b_pdf_missing: "\<not> path_exists attachments_world (path_div (ATTACHMENT_DIR example_env) ''b.pdf'')"
  by (simp add: path_exists_def attachments_world_def ATTACHMENT_DIR_def path_div_def
      path_parts_def example_env_def example_world_def)

theorem attachments_filtered_witness:
  "map_of attachments_data (PStr ''attachments'') = Some (PList (map PStr [''a.pdf'', ''b.pdf''])) \<and>
   fst (validate_attachments example_env attachments_data attachments_world) =
     Inr [(PStr ''attachments'', PList [PStr ''a.pdf''])]"
proof -
  have h: "map_of attachments_data (PStr ''attachments'')
      = Some (PList (map PStr [''a.pdf'', ''b.pdf'']))"
    by (simp add: attachments_data_def)
  have f: "filter (\<lambda>n. path_exists attachments_world (path_div (ATTACHMENT_DIR example_env) n))
      [''a.pdf'', ''b.pdf''] = [''a.pdf'']"
    using a_pdf_exists b_pdf_missing by simp
  have "fst (validate_attachments example_env attachments_data attachments_world) =
      Inr (dict_setitem attachments_data (PStr ''attachments'')
        (PList (map PStr (filter (\<lambda>n. path_exists attachments_world
              (path_div (ATTACHMENT_DIR example_env) n)) [''a.pdf'', ''b.pdf'']))))"
    by (rule mp [OF attachments_filtered [where data = attachments_data
          and names = "[''a.pdf'', ''b.pdf'']" and e = example_env and w = attachments_world] h])
  then have "fst (validate_attachments example_env attachments_data attachments_world) =
     Inr [(PStr ''attachments'', PList [PStr ''a.pdf''])]"
    unfolding f by (simp add: dict_setitem_def attachments_data_def)
  with h show ?thesis by (intro conjI)
qed

subsection \<open>The archived cover-letter text\<close>

text \<open>
  C2. The archiver copies the configuration file (the original stays where it was), and it
  copies \<open>application_letter_text.txt\<close>. The text read into \<open>content\<close> comes from
  \<open>CONTENT_FILE\<close>, which is \<open>application_text.txt\<close>: another file. In a directory that has
  only the file that was read, the text is loaded and archiving then raises
  \<open>FileNotFoundError\<close>; in a directory that has both, the archive holds the other file's
  text and no copy of the one that was read.
\<close>

theorem archive_copies_other_letter_file:
  "fst (load_content example_env example_data letter_world)
     = Inr (dict_setitem example_data (PStr ''content'') (PStr ''Dear Acme'')) \<and>
   fst (archive_results example_env example_data letter_world) = Some FileNotFoundError \<and>
   fst (load_content example_env example_data draft_world)
     = Inr (dict_setitem example_data (PStr ''content'') (PStr ''Dear Acme'')) \<and>
   fst (archive_results example_env example_data draft_world) = None \<and>
   files (snd (archive_results example_env example_data draft_world))
     (archive_folder @ [''application_letter_text.txt'']) = Some ''Old draft'' \<and>
   files (snd (archive_results example_env example_data draft_world))
     (archive_folder @ [''application_text.txt'']) = None \<and>
   files (snd (archive_results example_env example_data draft_world))
     (archive_folder @ [''config.yaml'']) = Some ''company: Acme Corp'' \<and>
   files (snd (archive_results example_env example_data draft_world))
     (CONFIG_FILE example_env) = Some ''company: Acme Corp''"
  by code_simp

end
